theory Spec2Isabelle
  imports Main "HOL-Library.Char_ord" "HOL-Library.List_Lexorder" "HOL-Library.Multiset"
begin

section \<open>Strings and the validator library\<close>

text \<open>
  A \<open>string\<close> stands for a JavaScript string whose code units are below 256, one
  \<open>char\<close> per code unit. The order on strings is the lexicographic order on code
  units, which is the order the store sorts strings by.

  The functions \<open>trim\<close>, \<open>escape\<close>, \<open>isLength\<close> and \<open>isAlphanumeric\<close> are the ones of the
  validator library that the chains of the controllers name.
\<close>

definition whitespace :: "char \<Rightarrow> bool" where
  "whitespace c \<longleftrightarrow>
     c \<in> set [CHR 0x09, CHR 0x0A, CHR 0x0B, CHR 0x0C, CHR 0x0D, CHR 0x20, CHR 0xA0]"

definition trim :: "string \<Rightarrow> string" where
  "trim s = rev (dropWhile whitespace (rev (dropWhile whitespace s)))"

definition escape_char :: "char \<Rightarrow> string" where
  "escape_char c =
     (if c = CHR ''&'' then ''&amp;''
      else if c = CHR 0x22 then ''&quot;''
      else if c = CHR 0x27 then ''&#x27;''
      else if c = CHR ''<'' then ''&lt;''
      else if c = CHR ''>'' then ''&gt;''
      else if c = CHR ''/'' then ''&#x2F;''
      else if c = CHR 0x5C then ''&#x5C;''
      else if c = CHR 0x60 then ''&#96;''
      else [c])"

definition escape :: "string \<Rightarrow> string" where
  "escape s = concat (map escape_char s)"

definition isLength :: "nat \<Rightarrow> string \<Rightarrow> bool" where
  "isLength min_len s \<longleftrightarrow> min_len \<le> length s"

definition alphanumeric :: "char \<Rightarrow> bool" where
  "alphanumeric c \<longleftrightarrow>
     (CHR ''0'' \<le> c \<and> c \<le> CHR ''9'') \<or> (CHR ''A'' \<le> c \<and> c \<le> CHR ''Z'')
       \<or> (CHR ''a'' \<le> c \<and> c \<le> CHR ''z'')"

definition isAlphanumeric :: "string \<Rightarrow> bool" where
  "isAlphanumeric s \<longleftrightarrow> s \<noteq> [] \<and> list_all alphanumeric s"

subsection \<open>Validation chains\<close>

text \<open>
  A chain \<open>body(field, message).trim().isLength({ min: 1 }).escape()...\<close> is a list of
  steps. Every step runs, in order, on the value the previous sanitizers left; a
  validator that fails adds one error and does not stop the chain. \<open>withMessage\<close>
  sets the message of the validator before it; a validator with no message of its
  own takes the message given to \<open>body\<close>.
\<close>

datatype step = Trim | Escape | IsLength nat | IsAlphanumeric | WithMessage string

record validation_error =
  param :: string
  msg :: string
  val :: string

fun message_of :: "step list \<Rightarrow> string option" where
  "message_of [] = None"
| "message_of (WithMessage m # ss) =
     (case message_of ss of Some m' \<Rightarrow> Some m' | None \<Rightarrow> Some m)"
| "message_of (Trim # ss) = message_of ss"
| "message_of (Escape # ss) = message_of ss"
| "message_of (IsLength n # ss) = None"
| "message_of (IsAlphanumeric # ss) = None"

definition failure :: "string \<Rightarrow> string \<Rightarrow> step list \<Rightarrow> string \<Rightarrow> validation_error" where
  "failure field dflt ss v =
     \<lparr>param = field,
      msg = (case message_of ss of Some m \<Rightarrow> m | None \<Rightarrow> dflt),
      val = v\<rparr>"

fun run :: "string \<Rightarrow> string \<Rightarrow> step list \<Rightarrow> string \<Rightarrow> string \<times> validation_error list" where
  "run field dflt [] v = (v, [])"
| "run field dflt (Trim # ss) v = run field dflt ss (trim v)"
| "run field dflt (Escape # ss) v = run field dflt ss (escape v)"
| "run field dflt (WithMessage m # ss) v = run field dflt ss v"
| "run field dflt (IsLength n # ss) v =
     (let (v', es) = run field dflt ss v
      in (v', (if isLength n v then [] else [failure field dflt ss v]) @ es))"
| "run field dflt (IsAlphanumeric # ss) v =
     (let (v', es) = run field dflt ss v
      in (v', (if isAlphanumeric v then [] else [failure field dflt ss v]) @ es))"

text \<open>
  The date chains \<open>.optional({ checkFalsy: true }).isISO8601().toDate()\<close>: an empty
  value skips the chain, any other value is checked by \<open>isISO8601\<close> and then replaced by
  what \<open>toDate\<close> makes of it (no date when it does not parse). The two library functions
  are parameters of the model. A date is a number of milliseconds.
\<close>

type_synonym date = int

definition run_date ::
  "(string \<Rightarrow> bool) \<Rightarrow> (string \<Rightarrow> date option) \<Rightarrow> string \<Rightarrow> string \<Rightarrow> string
     \<Rightarrow> date option \<times> validation_error list" where
  "run_date isISO8601 toDate field dflt v =
     (if v = [] then (None, [])
      else (toDate v,
            if isISO8601 v then [] else [\<lparr>param = field, msg = dflt, val = v\<rparr>]))"

section \<open>The entity store\<close>

text \<open>
  A document is its \<open>_id\<close> with its fields; a collection is the list of its documents in
  the order of insertion. Identifiers are well-formed object ids, written as strings.
\<close>

type_synonym oid = string
type_synonym 'a doc = "oid \<times> 'a"

record genre =
  name :: string

record author =
  first_name :: string
  family_name :: string
  date_of_birth :: "date option"
  date_of_death :: "date option"

record book =
  title :: string
  author :: oid
  summary :: string
  isbn :: string
  genre :: "oid list"

record bookinstance =
  book :: oid
  imprint :: string
  status :: string
  due_back :: "date option"

record store =
  genres :: "genre doc list"
  authors :: "author doc list"
  books :: "book doc list"
  bookinstances :: "bookinstance doc list"

definition findById :: "oid \<Rightarrow> 'a doc list \<Rightarrow> 'a doc option" where
  "findById i c = List.find (\<lambda>d. fst d = i) c"

definition findOne :: "('a doc \<Rightarrow> bool) \<Rightarrow> 'a doc list \<Rightarrow> 'a doc option" where
  "findOne p c = List.find p c"

definition find_docs :: "('a doc \<Rightarrow> bool) \<Rightarrow> 'a doc list \<Rightarrow> 'a doc list" where
  "find_docs p c = filter p c"

fun findByIdAndRemove :: "oid \<Rightarrow> 'a doc list \<Rightarrow> 'a doc list" where
  "findByIdAndRemove i [] = []"
| "findByIdAndRemove i (d # ds) =
     (if fst d = i then ds else d # findByIdAndRemove i ds)"

text \<open>
  \<open>findByIdAndUpdate(id, doc, {})\<close> replaces the fields of the document with that id and
  yields the document as it was before the update, or nothing when there is none.
\<close>

fun findByIdAndUpdate :: "oid \<Rightarrow> 'a \<Rightarrow> 'a doc list \<Rightarrow> 'a doc option \<times> 'a doc list" where
  "findByIdAndUpdate i f [] = (None, [])"
| "findByIdAndUpdate i f (d # ds) =
     (if fst d = i then (Some d, (i, f) # ds)
      else (let (r, ds') = findByIdAndUpdate i f ds in (r, d # ds')))"

text \<open>
  \<open>save\<close> of a new document inserts it; the store refuses a second document with an
  \<open>_id\<close> it already holds.
\<close>

definition save :: "'a doc \<Rightarrow> 'a doc list \<Rightarrow> 'a doc list option" where
  "save d c = (if fst d \<in> fst ` set c then None else Some (c @ [d]))"

text \<open>
  Modelled from the spec: the \<open>url\<close> virtual of the model files (models/genre and its
  siblings, absent from the sources), the detail location \<open>/catalog/{kind}/{id}\<close>
  of a record.
\<close>

definition url :: "string \<Rightarrow> 'a doc \<Rightarrow> string" where
  "url kind d = ''/catalog/'' @ kind @ ''/'' @ fst d"

section \<open>Responses\<close>

text \<open>
  A handler is a function from the request and the store to the calls it makes on
  \<open>res\<close> and \<open>next\<close>, in order, and the store it leaves.
\<close>

datatype error =
    HttpError nat string
  | Error string
  | TypeError
  | DuplicateKey

text \<open>
  What the templates are given. A populated reference is the referenced document, or
  nothing when the store has none; \<open>find\<close> with a projection yields the \<open>_id\<close> and the
  projected fields. The author form is rendered from the request body on a rejected
  post and from the stored document on the update form.
\<close>

type_synonym populated_book = "book doc \<times> author doc option \<times> genre doc list"

datatype author_form_data = from_body author | from_store "author doc"

datatype view =
    genre_list_view string "genre doc list"
  | genre_detail_view string "genre doc" "book doc list"
  | genre_form_view string "genre doc option" "validation_error list"
  | genre_delete_view string "genre doc option" "book doc list"
  | author_list_view string "author doc list"
  | author_detail_view string "author doc" "(oid \<times> string \<times> string) list"
  | author_form_view string author_form_data "validation_error list"
  | author_delete_view string "author doc option" "book doc list"
  | book_list_view string "(oid \<times> string \<times> author doc option) list"
  | book_detail_view string populated_book "bookinstance doc list"
  | book_form_view string "author doc list" "(genre doc \<times> bool) list" "book doc"
      "validation_error list"
  | book_update_form_view string "author doc list" "(genre doc \<times> bool) list" populated_book
  | book_delete_view string "(book doc \<times> author doc option) option"
      "(bookinstance doc \<times> book doc option) list"
  | bookinstance_list_view string "(bookinstance doc \<times> book doc option) list"
  | bookinstance_detail_view string "bookinstance doc \<times> book doc"
  | bookinstance_form_view string "(oid \<times> string) list" oid "string option"
      "bookinstance doc" "validation_error list"
  | bookinstance_delete_view string "bookinstance doc \<times> book doc option"

text \<open>
  \<open>uncaught\<close> is an error thrown outside every \<open>try\<close> of the handler: no call on
  \<open>res\<close> or \<open>next\<close> is made for it.
\<close>

datatype call =
    render view
  | redirect string
  | next_err error
  | uncaught error

definition populate :: "('a \<Rightarrow> oid) \<Rightarrow> 'b doc list \<Rightarrow> 'a doc \<Rightarrow> 'a doc \<times> 'b doc option" where
  "populate ref c d = (d, findById (ref (snd d)) c)"

definition populate_author_genre :: "store \<Rightarrow> book doc \<Rightarrow> populated_book" where
  "populate_author_genre s d =
     (d, findById (author (snd d)) (authors s),
      List.map_filter (\<lambda>i. findById i (genres s)) (genre (snd d)))"

section \<open>Genre controller\<close>

text \<open>
  A text field of the body is a string. A field that the request leaves out is the empty
  string here: the sanitizers turn a missing value into the empty string, and the
  optional date chains skip a missing value as they skip an empty one. \<open>new Genre({...})\<close>
  and its siblings build the document from the values the chains left in the body; a
  new document gets a new \<open>_id\<close>, which is an argument of the create posts. The path
  parameter \<open>req.params.id\<close> is the argument \<open>params_id\<close>.
\<close>

record genre_body =
  body_name :: string

definition genre_chain :: "string \<Rightarrow> string \<times> validation_error list" where
  "genre_chain v = run ''name'' ''Genre name required'' [Trim, IsLength 1, Escape] v"

definition genre_list :: "store \<Rightarrow> call list \<times> store" where
  "genre_list s =
     (let list_genres = sort_key (\<lambda>d. name (snd d)) (genres s)
      in ([render (genre_list_view ''Genre List'' list_genres)], s))"

definition genre_detail :: "oid \<Rightarrow> store \<Rightarrow> call list \<times> store" where
  "genre_detail params_id s =
     (let g = findById params_id (genres s);
          genre_books = find_docs (\<lambda>b. params_id \<in> set (genre (snd b))) (books s)
      in case g of
           None \<Rightarrow> ([next_err (HttpError 404 ''Genre not found'')], s)
         | Some d \<Rightarrow> ([render (genre_detail_view ''Genre Detail'' d genre_books)], s))"

definition genre_create_post :: "oid \<Rightarrow> genre_body \<Rightarrow> store \<Rightarrow> call list \<times> store" where
  "genre_create_post new_id body s =
     (let (nm, errors) = genre_chain (body_name body);
          g = (new_id, \<lparr>name = nm\<rparr>)
      in if errors \<noteq> [] then
           ([render (genre_form_view ''Create Genre'' (Some g) errors)], s)
         else
           (case findOne (\<lambda>d. name (snd d) = nm) (genres s) of
              Some found_genre \<Rightarrow> ([redirect (url ''genre'' found_genre)], s)
            | None \<Rightarrow>
                (case save g (genres s) of
                   Some gs \<Rightarrow> ([redirect (url ''genre'' g)], s\<lparr>genres := gs\<rparr>)
                 | None \<Rightarrow> ([next_err DuplicateKey], s))))"

text \<open>
  \<open>genre_delete_get\<close> does not return after the redirect of a missing genre: the
  render call follows it.
\<close>

definition genre_delete_get :: "oid \<Rightarrow> store \<Rightarrow> call list \<times> store" where
  "genre_delete_get params_id s =
     (let g = findById params_id (genres s);
          genre_books = find_docs (\<lambda>b. params_id \<in> set (genre (snd b))) (books s)
      in ((if g = None then [redirect ''/catalog/genres''] else [])
           @ [render (genre_delete_view ''Delete Genre'' g genre_books)], s))"

definition genre_delete_post :: "oid \<Rightarrow> store \<Rightarrow> call list \<times> store" where
  "genre_delete_post genreid s =
     (let g = findById genreid (genres s);
          genre_books = find_docs (\<lambda>b. genreid \<in> set (genre (snd b))) (books s)
      in if length genre_books > 0 then
           ([render (genre_delete_view ''Delete genre'' g genre_books)], s)
         else
           ([redirect ''/catalog/genres''],
            s\<lparr>genres := findByIdAndRemove genreid (genres s)\<rparr>))"

definition genre_update_get :: "oid \<Rightarrow> store \<Rightarrow> call list \<times> store" where
  "genre_update_get params_id s =
     (case findById params_id (genres s) of
        None \<Rightarrow> ([next_err (HttpError 404 ''Genre not found'')], s)
      | Some d \<Rightarrow> ([render (genre_form_view ''Update Genre'' (Some d) [])], s))"

text \<open>
  In \<open>genre_update_post\<close> the rejected branch reads the stored genre again and renders
  that one; the duplicate check looks for any genre with the sanitized name, and
  the error it throws is caught and handed to \<open>next\<close>, as is the failure of reading
  \<open>url\<close> when there was no document to update.
\<close>

definition genre_update_post :: "oid \<Rightarrow> genre_body \<Rightarrow> store \<Rightarrow> call list \<times> store" where
  "genre_update_post params_id body s =
     (let (nm, errors) = genre_chain (body_name body);
          g = \<lparr>name = nm\<rparr>
      in if errors \<noteq> [] then
           (let stored = findById params_id (genres s)
            in ([render (genre_form_view ''Update Genre'' stored errors)], s))
         else
           (case findOne (\<lambda>d. name (snd d) = nm) (genres s) of
              Some found_genre \<Rightarrow> ([next_err (Error ''Genre already exists'')], s)
            | None \<Rightarrow>
                (case findByIdAndUpdate params_id g (genres s) of
                   (Some thegenre, gs) \<Rightarrow> ([redirect (url ''genre'' thegenre)], s\<lparr>genres := gs\<rparr>)
                 | (None, gs) \<Rightarrow> ([next_err TypeError], s\<lparr>genres := gs\<rparr>))))"

section \<open>Author controller\<close>

record author_body =
  body_first_name :: string
  body_family_name :: string
  body_date_of_birth :: string
  body_date_of_death :: string

definition first_name_chain :: "string \<Rightarrow> string \<times> validation_error list" where
  "first_name_chain v =
     run ''first_name'' ''Invalid value''
       [Trim, IsLength 1, Escape, WithMessage ''First name must be specified.'',
        IsAlphanumeric, WithMessage ''First name has non-alphanumeric characters.''] v"

definition family_name_chain :: "string \<Rightarrow> string \<times> validation_error list" where
  "family_name_chain v =
     run ''family_name'' ''Invalid value''
       [Trim, IsLength 1, Escape, WithMessage ''Family name must be specified.'',
        IsAlphanumeric, WithMessage ''Family name has non-alphanumeric characters.''] v"

text \<open>
  The four chains of the author forms, run in order on the body: the sanitized body and
  the errors of \<open>validationResult\<close>.
\<close>

definition author_chains ::
  "(string \<Rightarrow> bool) \<Rightarrow> (string \<Rightarrow> date option) \<Rightarrow> author_body
     \<Rightarrow> author \<times> validation_error list" where
  "author_chains isISO8601 toDate body =
     (let (fn, e1) = first_name_chain (body_first_name body);
          (ln, e2) = family_name_chain (body_family_name body);
          (dob, e3) = run_date isISO8601 toDate ''date_of_birth'' ''Invalid date of birth''
                        (body_date_of_birth body);
          (dod, e4) = run_date isISO8601 toDate ''date_of_death'' ''Invalid date of death''
                        (body_date_of_death body)
      in (\<lparr>first_name = fn, family_name = ln, date_of_birth = dob, date_of_death = dod\<rparr>,
          e1 @ e2 @ e3 @ e4))"

definition author_list :: "store \<Rightarrow> call list \<times> store" where
  "author_list s =
     (let list_authors = sort_key (\<lambda>d. family_name (snd d)) (authors s)
      in ([render (author_list_view ''Author List'' list_authors)], s))"

definition author_detail :: "oid \<Rightarrow> store \<Rightarrow> call list \<times> store" where
  "author_detail params_id s =
     (let a = findById params_id (authors s);
          author_books = map (\<lambda>b. (fst b, title (snd b), summary (snd b)))
                           (find_docs (\<lambda>b. author (snd b) = params_id) (books s))
      in case a of
           None \<Rightarrow> ([next_err (HttpError 404 ''Author not found'')], s)
         | Some d \<Rightarrow> ([render (author_detail_view ''Author Detail'' d author_books)], s))"

definition author_create_post ::
  "(string \<Rightarrow> bool) \<Rightarrow> (string \<Rightarrow> date option) \<Rightarrow> oid \<Rightarrow> author_body \<Rightarrow> store
     \<Rightarrow> call list \<times> store" where
  "author_create_post isISO8601 toDate new_id body s =
     (let (req_body, errors) = author_chains isISO8601 toDate body
      in if errors \<noteq> [] then
           ([render (author_form_view ''Create Author'' (from_body req_body) errors)], s)
         else
           (case save (new_id, req_body) (authors s) of
              Some as \<Rightarrow> ([redirect (url ''author'' (new_id, req_body))], s\<lparr>authors := as\<rparr>)
            | None \<Rightarrow> ([uncaught DuplicateKey], s)))"

definition author_delete_get :: "oid \<Rightarrow> store \<Rightarrow> call list \<times> store" where
  "author_delete_get params_id s =
     (let a = findById params_id (authors s);
          author_books = find_docs (\<lambda>b. author (snd b) = params_id) (books s)
      in ((if a = None then [redirect ''/catalog/authors''] else [])
           @ [render (author_delete_view ''Delete Author'' a author_books)], s))"

definition author_delete_post :: "oid \<Rightarrow> store \<Rightarrow> call list \<times> store" where
  "author_delete_post authorid s =
     (let a = findById authorid (authors s);
          author_books = find_docs (\<lambda>b. author (snd b) = authorid) (books s)
      in if length author_books > 0 then
           ([render (author_delete_view ''Delete Author'' a author_books)], s)
         else
           ([redirect ''/catalog/authors''],
            s\<lparr>authors := findByIdAndRemove authorid (authors s)\<rparr>))"

definition author_update_get :: "oid \<Rightarrow> store \<Rightarrow> call list \<times> store" where
  "author_update_get params_id s =
     (case findById params_id (authors s) of
        None \<Rightarrow> ([next_err (HttpError 404 ''Author not found'')], s)
      | Some d \<Rightarrow> ([render (author_form_view ''Update Author'' (from_store d) [])], s))"

definition author_update_post ::
  "(string \<Rightarrow> bool) \<Rightarrow> (string \<Rightarrow> date option) \<Rightarrow> oid \<Rightarrow> author_body \<Rightarrow> store
     \<Rightarrow> call list \<times> store" where
  "author_update_post isISO8601 toDate params_id body s =
     (let (req_body, errors) = author_chains isISO8601 toDate body
      in if errors \<noteq> [] then
           ([render (author_form_view ''Update Author'' (from_body req_body) errors)], s)
         else
           (case findByIdAndUpdate params_id req_body (authors s) of
              (Some theauthor, as) \<Rightarrow> ([redirect (url ''author'' theauthor)], s\<lparr>authors := as\<rparr>)
            | (None, as) \<Rightarrow> ([uncaught TypeError], s\<lparr>authors := as\<rparr>)))"

section \<open>Book controller\<close>

text \<open>
  The \<open>genre\<close> field of the body is absent, one value or an array; the first middleware of
  the book posts turns it into an array.
\<close>

datatype genre_value = Undefined | Single string | Array "string list"

fun to_array :: "genre_value \<Rightarrow> string list" where
  "to_array (Array xs) = xs"
| "to_array Undefined = []"
| "to_array (Single x) = [x]"

record book_body =
  body_title :: string
  body_author :: string
  body_summary :: string
  body_isbn :: string
  body_genre :: genre_value

definition book_chains :: "book_body \<Rightarrow> book \<times> validation_error list" where
  "book_chains body =
     (let gs = to_array (body_genre body);
          (t, e1) = run ''title'' ''Title must not be empty.'' [Trim, IsLength 1, Escape]
                      (body_title body);
          (a, e2) = run ''author'' ''Author must not be empty.'' [Trim, IsLength 1, Escape]
                      (body_author body);
          (su, e3) = run ''summary'' ''Summary must not be empty.'' [Trim, IsLength 1, Escape]
                      (body_summary body);
          (i, e4) = run ''isbn'' ''ISBN must not be empty'' [Trim, IsLength 1, Escape]
                      (body_isbn body)
      in (\<lparr>title = t, author = a, summary = su, isbn = i, genre = map escape gs\<rparr>,
          e1 @ e2 @ e3 @ e4))"

definition checked :: "oid list \<Rightarrow> genre doc list \<Rightarrow> (genre doc \<times> bool) list" where
  "checked selected gs = map (\<lambda>g. (g, fst g \<in> set selected)) gs"

definition book_list :: "store \<Rightarrow> call list \<times> store" where
  "book_list s =
     (let list_books = map (\<lambda>b. (fst b, title (snd b), findById (author (snd b)) (authors s)))
                         (sort_key (\<lambda>b. title (snd b)) (books s))
      in ([render (book_list_view ''Book List'' list_books)], s))"

definition book_detail :: "oid \<Rightarrow> store \<Rightarrow> call list \<times> store" where
  "book_detail params_id s =
     (let b = map_option (populate_author_genre s) (findById params_id (books s));
          book_instance = find_docs (\<lambda>i. book (snd i) = params_id) (bookinstances s)
      in case b of
           None \<Rightarrow> ([next_err (HttpError 404 ''Book not found'')], s)
         | Some pb \<Rightarrow> ([render (book_detail_view (title (snd (fst pb))) pb book_instance)], s))"

definition book_create_post :: "oid \<Rightarrow> book_body \<Rightarrow> store \<Rightarrow> call list \<times> store" where
  "book_create_post new_id body s =
     (let (fields, errors) = book_chains body;
          b = (new_id, fields)
      in if errors \<noteq> [] then
           ([render (book_form_view ''Create Book'' (authors s)
                       (checked (genre fields) (genres s)) b errors)], s)
         else
           (case save b (books s) of
              Some bs \<Rightarrow> ([redirect (url ''book'' b)], s\<lparr>books := bs\<rparr>)
            | None \<Rightarrow> ([next_err DuplicateKey], s)))"

definition book_delete_get :: "oid \<Rightarrow> store \<Rightarrow> call list \<times> store" where
  "book_delete_get params_id s =
     (let b = map_option (populate author (authors s)) (findById params_id (books s));
          book_bookinstances = map (populate book (books s))
                                 (find_docs (\<lambda>i. book (snd i) = params_id) (bookinstances s))
      in ((if b = None then [redirect ''/catalog/books''] else [])
           @ [render (book_delete_view ''Delete Book'' b book_bookinstances)], s))"

text \<open>
  \<open>book_delete_post\<close> looks for the book and its copies under the \<open>id\<close> of the path and
  removes the book named by the \<open>bookid\<close> of the body.
\<close>

definition book_delete_post :: "oid \<Rightarrow> oid \<Rightarrow> store \<Rightarrow> call list \<times> store" where
  "book_delete_post params_id bookid s =
     (let b = map_option (populate author (authors s)) (findById params_id (books s));
          book_bookinstances = map (populate book (books s))
                                 (find_docs (\<lambda>i. book (snd i) = params_id) (bookinstances s))
      in if length book_bookinstances > 0 then
           ([render (book_delete_view ''Delete Book'' b book_bookinstances)], s)
         else
           ([redirect ''/catalog/books''],
            s\<lparr>books := findByIdAndRemove bookid (books s)\<rparr>))"

definition book_update_get :: "oid \<Rightarrow> store \<Rightarrow> call list \<times> store" where
  "book_update_get params_id s =
     (case map_option (populate_author_genre s) (findById params_id (books s)) of
        None \<Rightarrow> ([next_err (HttpError 404 ''Book not found'')], s)
      | Some pb \<Rightarrow>
          ([render (book_update_form_view ''Update Book'' (authors s)
                      (checked (map fst (snd (snd pb))) (genres s)) pb)], s))"

definition book_update_post :: "oid \<Rightarrow> book_body \<Rightarrow> store \<Rightarrow> call list \<times> store" where
  "book_update_post params_id body s =
     (let (fields, errors) = book_chains body;
          b = (params_id, fields)
      in if errors \<noteq> [] then
           ([render (book_form_view ''Update Book'' (authors s)
                       (checked (genre fields) (genres s)) b errors)], s)
         else
           (case findByIdAndUpdate params_id fields (books s) of
              (Some thebook, bs) \<Rightarrow> ([redirect (url ''book'' thebook)], s\<lparr>books := bs\<rparr>)
            | (None, bs) \<Rightarrow> ([uncaught TypeError], s\<lparr>books := bs\<rparr>)))"

section \<open>BookInstance controller\<close>

record bookinstance_body =
  body_book :: string
  body_imprint :: string
  body_status :: string
  body_due_back :: string

definition bookinstance_chains ::
  "(string \<Rightarrow> bool) \<Rightarrow> (string \<Rightarrow> date option) \<Rightarrow> bookinstance_body
     \<Rightarrow> bookinstance \<times> validation_error list" where
  "bookinstance_chains isISO8601 toDate body =
     (let (b, e1) = run ''book'' ''Book must be specified'' [Trim, IsLength 1, Escape]
                      (body_book body);
          (i, e2) = run ''imprint'' ''Imprint must be specified'' [Trim, IsLength 1, Escape]
                      (body_imprint body);
          (st, e3) = run ''status'' ''Invalid value'' [Escape] (body_status body);
          (due, e4) = run_date isISO8601 toDate ''due_back'' ''Invalid date''
                        (body_due_back body)
      in (\<lparr>book = b, imprint = i, status = st, due_back = due\<rparr>, e1 @ e2 @ e3 @ e4))"

definition project_title :: "book doc list \<Rightarrow> (oid \<times> string) list" where
  "project_title bs = map (\<lambda>b. (fst b, title (snd b))) bs"

text \<open>\<open>bookinstance_list\<close> asks for no order: the copies come as the store holds them.\<close>

definition bookinstance_list :: "store \<Rightarrow> call list \<times> store" where
  "bookinstance_list s =
     (let list_bookinstances = map (populate book (books s)) (bookinstances s)
      in ([render (bookinstance_list_view ''Book Instance List'' list_bookinstances)], s))"

definition bookinstance_detail :: "oid \<Rightarrow> store \<Rightarrow> call list \<times> store" where
  "bookinstance_detail params_id s =
     (case map_option (populate book (books s)) (findById params_id (bookinstances s)) of
        None \<Rightarrow> ([next_err (HttpError 404 ''Book copy not found'')], s)
      | Some (i, None) \<Rightarrow> ([next_err TypeError], s)
      | Some (i, Some b) \<Rightarrow>
          ([render (bookinstance_detail_view (''Copy: '' @ title (snd b)) (i, b))], s))"

text \<open>
  The rejected branch of the two posts of a copy reads \<open>bookinstance.book._id\<close> inside its
  \<open>try\<close>, while it builds what it hands to \<open>render\<close>. An empty \<open>book\<close> value is no object
  id: the document has no \<open>book\<close> then, the read throws, and the \<open>catch\<close> hands the
  error to \<open>next\<close> before anything is rendered.
\<close>

definition bookinstance_create_post ::
  "(string \<Rightarrow> bool) \<Rightarrow> (string \<Rightarrow> date option) \<Rightarrow> oid \<Rightarrow> bookinstance_body \<Rightarrow> store
     \<Rightarrow> call list \<times> store" where
  "bookinstance_create_post isISO8601 toDate new_id body s =
     (let (fields, errors) = bookinstance_chains isISO8601 toDate body;
          i = (new_id, fields)
      in if errors \<noteq> [] then
           (if book fields = [] then ([next_err TypeError], s)
            else
              ([render (bookinstance_form_view ''Create BookInstance'' (project_title (books s))
                          (book fields) None i errors)], s))
         else
           (case save i (bookinstances s) of
              Some is \<Rightarrow> ([redirect (url ''bookinstance'' i)], s\<lparr>bookinstances := is\<rparr>)
            | None \<Rightarrow> ([next_err DuplicateKey], s)))"

definition bookinstance_delete_get :: "oid \<Rightarrow> store \<Rightarrow> call list \<times> store" where
  "bookinstance_delete_get params_id s =
     (case map_option (populate book (books s)) (findById params_id (bookinstances s)) of
        None \<Rightarrow> ([next_err (HttpError 404 ''Book copy not found'')], s)
      | Some pi \<Rightarrow> ([render (bookinstance_delete_view ''Delete Book-Instance'' pi)], s))"

definition bookinstance_delete_post :: "oid \<Rightarrow> store \<Rightarrow> call list \<times> store" where
  "bookinstance_delete_post bookinstanceid s =
     ([redirect ''/catalog/bookinstances''],
      s\<lparr>bookinstances := findByIdAndRemove bookinstanceid (bookinstances s)\<rparr>)"

text \<open>
  \<open>bookinstance_update_get\<close> reads \<open>book_instance.book._id\<close> with no test for a missing
  copy or a missing book: either read fails inside the \<open>try\<close>.
\<close>

definition bookinstance_update_get :: "oid \<Rightarrow> store \<Rightarrow> call list \<times> store" where
  "bookinstance_update_get params_id s =
     (case map_option (populate book (books s)) (findById params_id (bookinstances s)) of
        None \<Rightarrow> ([next_err TypeError], s)
      | Some (i, None) \<Rightarrow> ([next_err TypeError], s)
      | Some (i, Some b) \<Rightarrow>
          ([render (bookinstance_form_view ''Update BookInstance'' (project_title (books s))
                      (fst b) (Some (status (snd i))) i [])], s))"

definition bookinstance_update_post ::
  "(string \<Rightarrow> bool) \<Rightarrow> (string \<Rightarrow> date option) \<Rightarrow> oid \<Rightarrow> bookinstance_body \<Rightarrow> store
     \<Rightarrow> call list \<times> store" where
  "bookinstance_update_post isISO8601 toDate params_id body s =
     (let (fields, errors) = bookinstance_chains isISO8601 toDate body;
          i = (params_id, fields)
      in if errors \<noteq> [] then
           (if book fields = [] then ([next_err TypeError], s)
            else
              ([render (bookinstance_form_view ''Update BookInstance'' (project_title (books s))
                          (book fields) None i errors)], s))
         else
           (case findByIdAndUpdate params_id fields (bookinstances s) of
              (Some thebookinstance, is) \<Rightarrow>
                ([redirect (url ''bookinstance'' thebookinstance)], s\<lparr>bookinstances := is\<rparr>)
            | (None, is) \<Rightarrow> ([next_err TypeError], s\<lparr>bookinstances := is\<rparr>)))"

section \<open>Example stores\<close>

definition store0 :: store where
  "store0 = \<lparr>genres = [], authors = [], books = [], bookinstances = []\<rparr>"

definition fantasy :: "genre doc" where
  "fantasy = (''g1'', \<lparr>name = ''Fantasy''\<rparr>)"

definition horror :: "genre doc" where
  "horror = (''g2'', \<lparr>name = ''Horror''\<rparr>)"

definition tolkien :: "author doc" where
  "tolkien = (''a1'', \<lparr>first_name = ''John'', family_name = ''Tolkien'',
                       date_of_birth = None, date_of_death = None\<rparr>)"

definition herbert :: "author doc" where
  "herbert = (''a2'', \<lparr>first_name = ''Frank'', family_name = ''Herbert'',
                       date_of_birth = None, date_of_death = None\<rparr>)"

definition hobbit :: "book doc" where
  "hobbit = (''b1'', \<lparr>title = ''The Hobbit'', author = ''a1'', summary = ''There and back again'',
                      isbn = ''9780261102217'', genre = [''g1'']\<rparr>)"

definition dune :: "book doc" where
  "dune = (''b2'', \<lparr>title = ''Dune'', author = ''a2'', summary = ''Arrakis'',
                    isbn = ''9780441013593'', genre = []\<rparr>)"

definition copy1 :: "bookinstance doc" where
  "copy1 = (''i1'', \<lparr>book = ''b1'', imprint = ''HarperCollins, 1995'', status = ''Available'',
                     due_back = None\<rparr>)"

definition copy2 :: "bookinstance doc" where
  "copy2 = (''i2'', \<lparr>book = ''b2'', imprint = ''Ace, 2005'', status = ''Loaned'',
                     due_back = Some 0\<rparr>)"

text \<open>A library in which only The Hobbit has a copy.\<close>

definition library :: store where
  "library = \<lparr>genres = [fantasy, horror], authors = [tolkien, herbert],
              books = [hobbit, dune], bookinstances = [copy1]\<rparr>"








lemmas examples = store0_def fantasy_def horror_def tolkien_def herbert_def hobbit_def dune_def
  copy1_def copy2_def library_def



section \<open>Facts about the store operations\<close>

lemma findById_None_iff: "findById i c = None \<longleftrightarrow> i \<notin> fst ` set c"
  by (induction c) (auto simp: findById_def)

lemma findById_Some: "findById i c = Some d \<Longrightarrow> d \<in> set c \<and> fst d = i"
  by (auto simp: findById_def find_Some_iff)

lemma findByIdAndRemove_missing:
  "findById i c = None \<Longrightarrow> findByIdAndRemove i c = c"
  by (induction c) (auto simp: findById_def)

lemma findById_remove_other:
  "j \<noteq> i \<Longrightarrow> findById j (findByIdAndRemove i c) = findById j c"
  by (induction c) (auto simp: findById_def)

lemma findById_remove_same:
  "distinct (map fst c) \<Longrightarrow> findById i (findByIdAndRemove i c) = None"
  by (induction c) (auto simp: findById_def findById_None_iff[unfolded findById_def])

lemma findOne_None_iff: "findOne p c = None \<longleftrightarrow> (\<forall>d \<in> set c. \<not> p d)"
  by (induction c) (simp_all add: findOne_def)

lemma findOne_Some: "findOne p c = Some d \<Longrightarrow> d \<in> set c \<and> p d"
  by (auto simp: findOne_def find_Some_iff)

lemma findByIdAndUpdate_missing:
  "findById i c = None \<Longrightarrow> findByIdAndUpdate i f c = (None, c)"
  by (induction c) (auto simp: findById_def)

lemma findByIdAndUpdate_found:
  "findById i c = Some d \<Longrightarrow> fst (findByIdAndUpdate i f c) = Some d"
  by (induction c) (auto simp: findById_def split: prod.splits)

lemma findByIdAndUpdate_ids:
  "map fst (snd (findByIdAndUpdate i f c)) = map fst c"
  by (induction c) (auto split: prod.splits)

lemma findById_update_same:
  "findById i c = Some d \<Longrightarrow> findById i (snd (findByIdAndUpdate i f c)) = Some (i, f)"
  by (induction c) (auto simp: findById_def split: prod.splits)

lemma findById_update_other:
  "j \<noteq> i \<Longrightarrow> findById j (snd (findByIdAndUpdate i f c)) = findById j c"
  by (induction c) (auto simp: findById_def split: prod.splits)

section \<open>Facts about the validation chains\<close>

lemma run_required:
  "run field dflt [Trim, IsLength 1, Escape] v =
     (escape (trim v),
      if trim v = [] then [\<lparr>param = field, msg = dflt, val = []\<rparr>] else [])"
  by (auto simp: isLength_def failure_def Suc_le_eq)

lemma genre_chain_eq:
  "genre_chain v =
     (escape (trim v),
      if trim v = [] then [\<lparr>param = ''name'', msg = ''Genre name required'', val = []\<rparr>]
      else [])"
  unfolding genre_chain_def by (rule run_required)

lemma run_name:
  "run field dflt [Trim, IsLength 1, Escape, WithMessage m1, IsAlphanumeric, WithMessage m2] v =
     (escape (trim v),
      (if trim v = [] then [\<lparr>param = field, msg = m1, val = []\<rparr>] else [])
      @ (if isAlphanumeric (escape (trim v)) then []
         else [\<lparr>param = field, msg = m2, val = escape (trim v)\<rparr>]))"
  by (auto simp: isLength_def failure_def Suc_le_eq)

lemma run_escape: "run field dflt [Escape] v = (escape v, [])"
  by simp

lemma escape_Nil: "escape [] = []"
  by (simp add: escape_def)

lemma escape_eq_Nil_iff: "escape v = [] \<longleftrightarrow> v = []"
  by (cases v) (auto simp: escape_def escape_char_def)




lemma run_date_fst:
  "fst (run_date isISO8601 toDate field dflt v) = (if v = [] then None else toDate v)"
  by (simp add: run_date_def)

lemma author_chains_fst:
  "fst (author_chains isISO8601 toDate ab) =
     \<lparr>first_name = escape (trim (body_first_name ab)),
      family_name = escape (trim (body_family_name ab)),
      date_of_birth = fst (run_date isISO8601 toDate ''date_of_birth'' ''Invalid date of birth''
                             (body_date_of_birth ab)),
      date_of_death = fst (run_date isISO8601 toDate ''date_of_death'' ''Invalid date of death''
                             (body_date_of_death ab))\<rparr>"
  unfolding author_chains_def first_name_chain_def family_name_chain_def run_name
  by (simp add: Let_def split: prod.splits)



lemma book_chains_fst:
  "fst (book_chains bb) =
     \<lparr>title = escape (trim (body_title bb)), author = escape (trim (body_author bb)),
      summary = escape (trim (body_summary bb)), isbn = escape (trim (body_isbn bb)),
      genre = map escape (to_array (body_genre bb))\<rparr>"
  unfolding book_chains_def run_required by (simp add: Let_def)


lemma bookinstance_chains_fst:
  "fst (bookinstance_chains isISO8601 toDate ib) =
     \<lparr>book = escape (trim (body_book ib)), imprint = escape (trim (body_imprint ib)),
      status = escape (body_status ib),
      due_back = fst (run_date isISO8601 toDate ''due_back'' ''Invalid date'' (body_due_back ib))\<rparr>"
  unfolding bookinstance_chains_def run_required run_escape by (simp add: Let_def split: prod.splits)

lemma bookinstance_chains_snd:
  "snd (bookinstance_chains isISO8601 toDate ib) =
     (if trim (body_book ib) = []
      then [\<lparr>param = ''book'', msg = ''Book must be specified'', val = []\<rparr>] else [])
     @ (if trim (body_imprint ib) = []
        then [\<lparr>param = ''imprint'', msg = ''Imprint must be specified'', val = []\<rparr>] else [])
     @ snd (run_date isISO8601 toDate ''due_back'' ''Invalid date'' (body_due_back ib))"
  unfolding bookinstance_chains_def run_required run_escape by (simp add: Let_def split: prod.splits)

section \<open>The rejected branch of the posts\<close>

text \<open>
  When the chains leave an error, the create and update posts render their form with the
  errors and leave the store as it was; the posts of a copy do so when the \<open>book\<close> of the
  body is not blank. All of them render the document built from the sanitized body, but
  for the update post of a genre, which renders the stored genre.
\<close>

lemma genre_create_post_rejected:
  "snd (genre_chain (body_name gb)) \<noteq> [] \<Longrightarrow>
   genre_create_post n gb s
     = ([render (genre_form_view ''Create Genre'' (Some (n, \<lparr>name = fst (genre_chain (body_name gb))\<rparr>))
                  (snd (genre_chain (body_name gb))))], s)"
  by (auto simp: genre_create_post_def Let_def split: prod.splits)

lemma genre_update_post_rejected:
  "snd (genre_chain (body_name gb)) \<noteq> [] \<Longrightarrow>
   genre_update_post p gb s
     = ([render (genre_form_view ''Update Genre'' (findById p (genres s))
                  (snd (genre_chain (body_name gb))))], s)"
  by (auto simp: genre_update_post_def Let_def split: prod.splits)

lemma author_create_post_rejected:
  "snd (author_chains isISO8601 toDate ab) \<noteq> [] \<Longrightarrow>
   author_create_post isISO8601 toDate n ab s
     = ([render (author_form_view ''Create Author''
                  (from_body (fst (author_chains isISO8601 toDate ab)))
                  (snd (author_chains isISO8601 toDate ab)))], s)"
  by (auto simp: author_create_post_def Let_def split: prod.splits)

lemma author_update_post_rejected:
  "snd (author_chains isISO8601 toDate ab) \<noteq> [] \<Longrightarrow>
   author_update_post isISO8601 toDate p ab s
     = ([render (author_form_view ''Update Author''
                  (from_body (fst (author_chains isISO8601 toDate ab)))
                  (snd (author_chains isISO8601 toDate ab)))], s)"
  by (auto simp: author_update_post_def Let_def split: prod.splits)

lemma book_create_post_rejected:
  "snd (book_chains bb) \<noteq> [] \<Longrightarrow>
   book_create_post n bb s
     = ([render (book_form_view ''Create Book'' (authors s)
                  (checked (genre (fst (book_chains bb))) (genres s))
                  (n, fst (book_chains bb)) (snd (book_chains bb)))], s)"
  by (auto simp: book_create_post_def Let_def split: prod.splits)

lemma book_update_post_rejected:
  "snd (book_chains bb) \<noteq> [] \<Longrightarrow>
   book_update_post p bb s
     = ([render (book_form_view ''Update Book'' (authors s)
                  (checked (genre (fst (book_chains bb))) (genres s))
                  (p, fst (book_chains bb)) (snd (book_chains bb)))], s)"
  by (auto simp: book_update_post_def Let_def split: prod.splits)

lemma bookinstance_create_post_rejected:
  "snd (bookinstance_chains isISO8601 toDate ib) \<noteq> [] \<Longrightarrow> trim (body_book ib) \<noteq> [] \<Longrightarrow>
   bookinstance_create_post isISO8601 toDate n ib s
     = ([render (bookinstance_form_view ''Create BookInstance'' (project_title (books s))
                  (book (fst (bookinstance_chains isISO8601 toDate ib))) None
                  (n, fst (bookinstance_chains isISO8601 toDate ib))
                  (snd (bookinstance_chains isISO8601 toDate ib)))], s)"
proof -
  assume e: "snd (bookinstance_chains isISO8601 toDate ib) \<noteq> []"
    and b: "trim (body_book ib) \<noteq> []"
  have "book (fst (bookinstance_chains isISO8601 toDate ib)) \<noteq> []"
    using b by (simp add: bookinstance_chains_fst escape_eq_Nil_iff)
  then show ?thesis
    using e by (auto simp: bookinstance_create_post_def Let_def split: prod.splits)
qed

lemma bookinstance_update_post_rejected:
  "snd (bookinstance_chains isISO8601 toDate ib) \<noteq> [] \<Longrightarrow> trim (body_book ib) \<noteq> [] \<Longrightarrow>
   bookinstance_update_post isISO8601 toDate p ib s
     = ([render (bookinstance_form_view ''Update BookInstance'' (project_title (books s))
                  (book (fst (bookinstance_chains isISO8601 toDate ib))) None
                  (p, fst (bookinstance_chains isISO8601 toDate ib))
                  (snd (bookinstance_chains isISO8601 toDate ib)))], s)"
proof -
  assume e: "snd (bookinstance_chains isISO8601 toDate ib) \<noteq> []"
    and b: "trim (body_book ib) \<noteq> []"
  have "book (fst (bookinstance_chains isISO8601 toDate ib)) \<noteq> []"
    using b by (simp add: bookinstance_chains_fst escape_eq_Nil_iff)
  then show ?thesis
    using e by (auto simp: bookinstance_update_post_def Let_def split: prod.splits)
qed

text \<open>
  With a blank \<open>book\<close> the two posts of a copy render nothing: the read of
  \<open>bookinstance.book._id\<close> fails in the rejected branch and the error goes to \<open>next\<close>.
\<close>

lemma bookinstance_post_blank_book:
  assumes "trim (body_book ib) = []"
  shows "bookinstance_create_post isISO8601 toDate n ib s = ([next_err TypeError], s)"
    and "bookinstance_update_post isISO8601 toDate p ib s = ([next_err TypeError], s)"
proof -
  have e: "snd (bookinstance_chains isISO8601 toDate ib) \<noteq> []"
    using assms by (simp add: bookinstance_chains_snd)
  have b: "book (fst (bookinstance_chains isISO8601 toDate ib)) = []"
    using assms by (simp add: bookinstance_chains_fst escape_Nil)
  show "bookinstance_create_post isISO8601 toDate n ib s = ([next_err TypeError], s)"
    using e b by (auto simp: bookinstance_create_post_def Let_def split: prod.splits)
  show "bookinstance_update_post isISO8601 toDate p ib s = ([next_err TypeError], s)"
    using e b by (auto simp: bookinstance_update_post_def Let_def split: prod.splits)
qed

section \<open>Deleting a copy\<close>

text \<open>
  C10. The delete post of a copy always answers with the redirect to the list of copies
  and nothing else: it renders no view and hands no error on. It removes the copy named
  by \<open>bookinstanceid\<close> (with identifiers unique, none is left under that id), touches no
  other document, and leaves the store as it was when the id names no copy.
\<close>

theorem bookinstance_delete_post_unconditional:
  "fst (bookinstance_delete_post i s) = [redirect ''/catalog/bookinstances'']
   \<and> (distinct (map fst (bookinstances s)) \<longrightarrow>
        findById i (bookinstances (snd (bookinstance_delete_post i s))) = None)
   \<and> (\<forall>j. j \<noteq> i \<longrightarrow>
        findById j (bookinstances (snd (bookinstance_delete_post i s)))
          = findById j (bookinstances s))
   \<and> (findById i (bookinstances s) = None \<longrightarrow> snd (bookinstance_delete_post i s) = s)
   \<and> genres (snd (bookinstance_delete_post i s)) = genres s
   \<and> authors (snd (bookinstance_delete_post i s)) = authors s
   \<and> books (snd (bookinstance_delete_post i s)) = books s"
  by (simp add: bookinstance_delete_post_def findById_remove_same findById_remove_other
      findByIdAndRemove_missing)

theorem bookinstance_delete_post_unconditional_witness:
  "distinct (map fst (bookinstances library))
   \<and> bookinstance_delete_post ''i1'' library
       = ([redirect ''/catalog/bookinstances''], library\<lparr>bookinstances := []\<rparr>)
   \<and> findById ''i2'' (bookinstances library) = None
   \<and> bookinstance_delete_post ''i2'' library = ([redirect ''/catalog/bookinstances''], library)"
  using bookinstance_delete_post_unconditional [of "''i1''" library]
    bookinstance_delete_post_unconditional [of "''i2''" library]
  by (simp add: bookinstance_delete_post_def examples findById_def)

section \<open>Deleting a book\<close>

text \<open>
  C9. In the delete post of a book the guard counts the copies of the book named by the
  path, and the removal takes the \<open>bookid\<close> of the body. Whenever the book of the path
  has no copy, the book of the body is removed and the answer is the redirect to the
  list of books, whatever copies refer to the book of the body; whenever the book of
  the path has a copy, the store is left as it was. When the two ids are the same, a
  store that changed is one in which the removed book had no copy.
\<close>

theorem book_delete_post_guards_path_removes_body:
  "(find_docs (\<lambda>i. book (snd i) = params_id) (bookinstances s) = [] \<longrightarrow>
      book_delete_post params_id bookid s
        = ([redirect ''/catalog/books''], s\<lparr>books := findByIdAndRemove bookid (books s)\<rparr>)
      \<and> (distinct (map fst (books s)) \<longrightarrow>
           findById bookid (books (snd (book_delete_post params_id bookid s))) = None))
   \<and> (find_docs (\<lambda>i. book (snd i) = params_id) (bookinstances s) \<noteq> [] \<longrightarrow>
        snd (book_delete_post params_id bookid s) = s)
   \<and> (params_id = bookid \<and> snd (book_delete_post params_id bookid s) \<noteq> s \<longrightarrow>
        find_docs (\<lambda>i. book (snd i) = bookid) (bookinstances s) = [])"
  by (auto simp: book_delete_post_def Let_def findById_remove_same)

theorem book_delete_post_guards_path_removes_body_witness:
  "''b2'' \<noteq> ''b1''
   \<and> find_docs (\<lambda>i. book (snd i) = ''b2'') (bookinstances library) = []
   \<and> find_docs (\<lambda>i. book (snd i) = ''b1'') (bookinstances library) = [copy1]
   \<and> findById ''b1'' (books library) = Some hobbit
   \<and> distinct (map fst (books library))
   \<and> findById ''b1'' (books (snd (book_delete_post ''b2'' ''b1'' library))) = None
   \<and> bookinstances (snd (book_delete_post ''b2'' ''b1'' library)) = [copy1]
   \<and> snd (book_delete_post ''b1'' ''b1'' library) = library
   \<and> snd (book_delete_post ''b2'' ''b2'' library) \<noteq> library"
  using book_delete_post_guards_path_removes_body [of "''b2''" library "''b1''"]
    book_delete_post_guards_path_removes_body [of "''b1''" library "''b1''"]
    book_delete_post_guards_path_removes_body [of "''b2''" library "''b2''"]
  by (simp add: examples find_docs_def findById_def)

section \<open>The guard of the delete posts\<close>

text \<open>
  The delete posts of an author and of a genre take the guarded id and the removed id
  from the same field of the body: with a book that refers to the record they render
  the delete view with exactly those books and leave the store as it was, and with
  none they remove the record and redirect to the list.
\<close>

lemma author_delete_post_guard:
  "(find_docs (\<lambda>b. author (snd b) = authorid) (books s) \<noteq> [] \<longrightarrow>
      author_delete_post authorid s
        = ([render (author_delete_view ''Delete Author'' (findById authorid (authors s))
                     (find_docs (\<lambda>b. author (snd b) = authorid) (books s)))], s))
   \<and> (find_docs (\<lambda>b. author (snd b) = authorid) (books s) = [] \<longrightarrow>
        author_delete_post authorid s
          = ([redirect ''/catalog/authors''],
             s\<lparr>authors := findByIdAndRemove authorid (authors s)\<rparr>))"
  by (simp add: author_delete_post_def Let_def)

lemma genre_delete_post_guard:
  "(find_docs (\<lambda>b. genreid \<in> set (genre (snd b))) (books s) \<noteq> [] \<longrightarrow>
      genre_delete_post genreid s
        = ([render (genre_delete_view ''Delete genre'' (findById genreid (genres s))
                     (find_docs (\<lambda>b. genreid \<in> set (genre (snd b))) (books s)))], s))
   \<and> (find_docs (\<lambda>b. genreid \<in> set (genre (snd b))) (books s) = [] \<longrightarrow>
        genre_delete_post genreid s
          = ([redirect ''/catalog/genres''],
             s\<lparr>genres := findByIdAndRemove genreid (genres s)\<rparr>))"
  by (simp add: genre_delete_post_def Let_def)

text \<open>
  C1. The delete post of a book does not keep that promise. Posted to the path of Dune,
  which has no copy, with the \<open>bookid\<close> of The Hobbit in the body, it removes The Hobbit
  and redirects to the list of books, while the copy of The Hobbit is still in the
  store and refers to it.
\<close>

theorem book_delete_post_removes_referenced_book:
  "book_delete_post ''b2'' ''b1'' library
     = ([redirect ''/catalog/books''], library\<lparr>books := [dune]\<rparr>)
   \<and> find_docs (\<lambda>i. book (snd i) = ''b1'') (bookinstances library) = [copy1]"
  by (simp add: book_delete_post_def examples find_docs_def findById_def)

section \<open>Creating a genre\<close>

text \<open>
  C8. The create post of a genre with a valid name (not empty once trimmed): when a
  genre of the store holds the sanitized name, the answer is the redirect to the detail
  location of such a genre and the store is left as it was; when none does, the new
  genre (under its new, unused id) is added to the store and the answer is the
  redirect to its detail location.
\<close>

theorem genre_create_post_existing_or_insert:
  assumes "trim (body_name body) \<noteq> []"
  shows "((\<exists>d \<in> set (genres s). name (snd d) = escape (trim (body_name body))) \<longrightarrow>
           (\<exists>g \<in> set (genres s). name (snd g) = escape (trim (body_name body))
              \<and> genre_create_post new_id body s = ([redirect (''/catalog/genre/'' @ fst g)], s)))
       \<and> ((\<forall>d \<in> set (genres s). name (snd d) \<noteq> escape (trim (body_name body)))
            \<and> new_id \<notin> fst ` set (genres s) \<longrightarrow>
           genre_create_post new_id body s
             = ([redirect (''/catalog/genre/'' @ new_id)],
                s\<lparr>genres := genres s @ [(new_id, \<lparr>name = escape (trim (body_name body))\<rparr>)]\<rparr>))"
proof (intro conjI impI)
  let ?nm = "escape (trim (body_name body))"
  assume "\<exists>d \<in> set (genres s). name (snd d) = ?nm"
  then have "findOne (\<lambda>d. name (snd d) = ?nm) (genres s) \<noteq> None"
    by (simp add: findOne_None_iff)
  then obtain g where g: "findOne (\<lambda>d. name (snd d) = ?nm) (genres s) = Some g"
    by blast
  from findOne_Some [OF g] have "g \<in> set (genres s)" "name (snd g) = ?nm"
    by simp_all
  moreover have "genre_create_post new_id body s = ([redirect (''/catalog/genre/'' @ fst g)], s)"
    using assms g by (simp add: genre_create_post_def genre_chain_eq url_def)
  ultimately show "\<exists>g \<in> set (genres s). name (snd g) = ?nm
      \<and> genre_create_post new_id body s = ([redirect (''/catalog/genre/'' @ fst g)], s)"
    by blast
next
  let ?nm = "escape (trim (body_name body))"
  assume a: "(\<forall>d \<in> set (genres s). name (snd d) \<noteq> ?nm) \<and> new_id \<notin> fst ` set (genres s)"
  then have "findOne (\<lambda>d. name (snd d) = ?nm) (genres s) = None"
    by (simp add: findOne_None_iff)
  then show "genre_create_post new_id body s
      = ([redirect (''/catalog/genre/'' @ new_id)],
         s\<lparr>genres := genres s @ [(new_id, \<lparr>name = ?nm\<rparr>)]\<rparr>)"
    using assms a by (simp add: genre_create_post_def genre_chain_eq url_def save_def)
qed

theorem genre_create_post_existing_or_insert_witness:
  "trim ''Fantasy'' \<noteq> [] \<and> trim '' Science Fiction '' \<noteq> []
   \<and> genre_create_post ''g3'' \<lparr>body_name = ''Fantasy''\<rparr> library
       = ([redirect ''/catalog/genre/g1''], library)
   \<and> genre_create_post ''g3'' \<lparr>body_name = '' Science Fiction ''\<rparr> library
       = ([redirect ''/catalog/genre/g3''],
          library\<lparr>genres := [fantasy, horror, (''g3'', \<lparr>name = ''Science Fiction''\<rparr>)]\<rparr>)"
  using genre_create_post_existing_or_insert [of "\<lparr>body_name = ''Fantasy''\<rparr>" library "''g3''"]
    genre_create_post_existing_or_insert
      [of "\<lparr>body_name = '' Science Fiction ''\<rparr>" library "''g3''"]
  by (simp add: examples trim_def whitespace_def escape_def escape_char_def)

section \<open>Updating a genre\<close>

text \<open>
  C2, as the claim states it, fails: an update that keeps the own name of the genre is
  refused. Fantasy is the only genre of the library with that name, and the update of
  Fantasy to the name Fantasy hands the error on and changes nothing.
\<close>

theorem genre_update_post_own_name_counterexample:
  "genres library = [fantasy, horror]
   \<and> fst fantasy = ''g1'' \<and> name (snd fantasy) = ''Fantasy'' \<and> name (snd horror) \<noteq> ''Fantasy''
   \<and> genre_update_post ''g1'' \<lparr>body_name = ''Fantasy''\<rparr> library
       = ([next_err (Error ''Genre already exists'')], library)"
  by (simp add: genre_update_post_def genre_chain_eq examples findOne_def
      trim_def whitespace_def escape_def escape_char_def)

text \<open>
  C2, amended. The update post of a genre with a valid name: when any genre of the
  store holds the sanitized name, the genre under update included, the only call is
  \<open>next\<close> with the error \<open>Genre already exists\<close>; when no genre holds it and the genre
  under update exists, the answer is the redirect to its detail location, the genre
  has the new name under the same id, and no other document changes.
\<close>

theorem genre_update_post_taken_or_replace:
  assumes "trim (body_name body) \<noteq> []"
  shows "((\<exists>d \<in> set (genres s). name (snd d) = escape (trim (body_name body))) \<longrightarrow>
           fst (genre_update_post params_id body s) = [next_err (Error ''Genre already exists'')])
       \<and> ((\<forall>d \<in> set (genres s). name (snd d) \<noteq> escape (trim (body_name body)))
            \<and> findById params_id (genres s) \<noteq> None \<longrightarrow>
           fst (genre_update_post params_id body s) = [redirect (''/catalog/genre/'' @ params_id)]
           \<and> findById params_id (genres (snd (genre_update_post params_id body s)))
               = Some (params_id, \<lparr>name = escape (trim (body_name body))\<rparr>)
           \<and> (\<forall>j. j \<noteq> params_id \<longrightarrow>
                 findById j (genres (snd (genre_update_post params_id body s)))
                   = findById j (genres s))
           \<and> map fst (genres (snd (genre_update_post params_id body s))) = map fst (genres s)
           \<and> authors (snd (genre_update_post params_id body s)) = authors s
           \<and> books (snd (genre_update_post params_id body s)) = books s
           \<and> bookinstances (snd (genre_update_post params_id body s)) = bookinstances s)"
proof (intro conjI impI)
  let ?nm = "escape (trim (body_name body))"
  assume "\<exists>d \<in> set (genres s). name (snd d) = ?nm"
  then have "findOne (\<lambda>d. name (snd d) = ?nm) (genres s) \<noteq> None"
    by (simp add: findOne_None_iff)
  then show "fst (genre_update_post params_id body s) = [next_err (Error ''Genre already exists'')]"
    using assms by (auto simp: genre_update_post_def genre_chain_eq)
next
  let ?nm = "escape (trim (body_name body))"
  let ?r = "genre_update_post params_id body s"
  assume a: "(\<forall>d \<in> set (genres s). name (snd d) \<noteq> ?nm) \<and> findById params_id (genres s) \<noteq> None"
  then have none: "findOne (\<lambda>d. name (snd d) = ?nm) (genres s) = None"
    by (simp add: findOne_None_iff)
  from a obtain g where g: "findById params_id (genres s) = Some g"
    by blast
  have id: "fst g = params_id"
    using findById_Some [OF g] by simp
  obtain gs where u: "findByIdAndUpdate params_id \<lparr>name = ?nm\<rparr> (genres s) = (Some g, gs)"
    using findByIdAndUpdate_found [OF g, of "\<lparr>name = ?nm\<rparr>"]
    by (cases "findByIdAndUpdate params_id \<lparr>name = ?nm\<rparr> (genres s)") simp
  have r: "?r = ([redirect (''/catalog/genre/'' @ params_id)], s\<lparr>genres := gs\<rparr>)"
    using assms none u id by (simp add: genre_update_post_def genre_chain_eq url_def)
  have gs: "gs = snd (findByIdAndUpdate params_id \<lparr>name = ?nm\<rparr> (genres s))"
    using u by simp
  show "fst ?r = [redirect (''/catalog/genre/'' @ params_id)]"
    using r by simp
  show "findById params_id (genres (snd ?r)) = Some (params_id, \<lparr>name = ?nm\<rparr>)"
    using r gs findById_update_same [OF g] by simp
  show "\<forall>j. j \<noteq> params_id \<longrightarrow> findById j (genres (snd ?r)) = findById j (genres s)"
    using r gs by (simp add: findById_update_other)
  show "map fst (genres (snd ?r)) = map fst (genres s)"
    using r gs by (simp add: findByIdAndUpdate_ids)
  show "authors (snd ?r) = authors s" using r by simp
  show "books (snd ?r) = books s" using r by simp
  show "bookinstances (snd ?r) = bookinstances s" using r by simp
qed

theorem genre_update_post_taken_or_replace_witness:
  "trim ''Fantasy'' \<noteq> [] \<and> trim ''Gothic'' \<noteq> []
   \<and> fst (genre_update_post ''g1'' \<lparr>body_name = ''Fantasy''\<rparr> library)
       = [next_err (Error ''Genre already exists'')]
   \<and> findById ''g2'' (genres library) = Some horror
   \<and> genre_update_post ''g2'' \<lparr>body_name = ''Gothic''\<rparr> library
       = ([redirect ''/catalog/genre/g2''],
          library\<lparr>genres := [fantasy, (''g2'', \<lparr>name = ''Gothic''\<rparr>)]\<rparr>)"
  using genre_update_post_taken_or_replace [of "\<lparr>body_name = ''Fantasy''\<rparr>" library "''g1''"]
    genre_update_post_taken_or_replace [of "\<lparr>body_name = ''Gothic''\<rparr>" library "''g2''"]
  by (simp add: genre_update_post_def genre_chain_eq examples findById_def
      findOne_def url_def trim_def whitespace_def escape_def escape_char_def)

text \<open>
  C3, as the claim states it, fails: on a duplicate name no form is rendered. The update
  of Horror to the name Fantasy, which another genre holds, makes one call, \<open>next\<close>
  with the error.
\<close>

theorem genre_update_post_duplicate_counterexample:
  "genre_update_post ''g2'' \<lparr>body_name = ''Fantasy''\<rparr> library
     = ([next_err (Error ''Genre already exists'')], library)"
  by (simp add: genre_update_post_def genre_chain_eq examples findOne_def
      trim_def whitespace_def escape_def escape_char_def)

text \<open>
  C3, amended. When the update post of a genre meets a genre with the sanitized name,
  the store is left as it was, and the failure is thrown, caught and handed to \<open>next\<close>
  as the error \<open>Genre already exists\<close>: no view is rendered.
\<close>

theorem genre_update_post_duplicate_forwarded:
  assumes "trim (body_name body) \<noteq> []"
    and "\<exists>d \<in> set (genres s). name (snd d) = escape (trim (body_name body))"
  shows "snd (genre_update_post params_id body s) = s
       \<and> fst (genre_update_post params_id body s) = [next_err (Error ''Genre already exists'')]
       \<and> (\<forall>v. render v \<notin> set (fst (genre_update_post params_id body s)))"
proof -
  have "findOne (\<lambda>d. name (snd d) = escape (trim (body_name body))) (genres s) \<noteq> None"
    using assms(2) by (simp add: findOne_None_iff)
  then show ?thesis
    using assms(1) by (auto simp: genre_update_post_def genre_chain_eq)
qed

theorem genre_update_post_duplicate_forwarded_witness:
  "trim ''Fantasy'' \<noteq> []
   \<and> fantasy \<in> set (genres library) \<and> name (snd fantasy) = escape (trim ''Fantasy'')
   \<and> snd (genre_update_post ''g2'' \<lparr>body_name = ''Fantasy''\<rparr> library) = library
   \<and> fst (genre_update_post ''g2'' \<lparr>body_name = ''Fantasy''\<rparr> library)
       = [next_err (Error ''Genre already exists'')]"
proof -
  have v: "trim (body_name \<lparr>body_name = ''Fantasy''\<rparr>) \<noteq> []"
    by (simp add: trim_def whitespace_def)
  have n: "name (snd fantasy) = escape (trim ''Fantasy'')"
    by (simp add: examples trim_def whitespace_def escape_def escape_char_def)
  have m: "fantasy \<in> set (genres library)"
    by (simp add: examples)
  have d: "\<exists>d \<in> set (genres library).
      name (snd d) = escape (trim (body_name \<lparr>body_name = ''Fantasy''\<rparr>))"
    using n m by auto
  show ?thesis
    using genre_update_post_duplicate_forwarded [OF v d, of "''g2''"] v n m by simp
qed

section \<open>A missing id\<close>

text \<open>
  C5, as the claim states it, fails for the copies: the delete form of a copy that does
  not exist hands a 404 error on instead of redirecting.
\<close>

theorem bookinstance_delete_get_missing_counterexample:
  "findById ''i9'' (bookinstances library) = None
   \<and> bookinstance_delete_get ''i9'' library
       = ([next_err (HttpError 404 ''Book copy not found'')], library)"
  by (simp add: bookinstance_delete_get_def examples findById_def)

text \<open>
  C5, amended. For a genre, an author and a book, the delete form of an id with no
  record first redirects to the list of the kind and leaves the store as it was, while
  the update form and the detail page of the same id hand the 404 error on. For a
  copy, the delete form and the detail page of an id with no record hand the 404 error
  on.
\<close>

theorem missing_id_delete_get_and_update_get:
  "(findById i (genres s) = None \<longrightarrow>
      take 1 (fst (genre_delete_get i s)) = [redirect ''/catalog/genres'']
      \<and> snd (genre_delete_get i s) = s
      \<and> genre_update_get i s = ([next_err (HttpError 404 ''Genre not found'')], s)
      \<and> genre_detail i s = ([next_err (HttpError 404 ''Genre not found'')], s))
   \<and> (findById i (authors s) = None \<longrightarrow>
      take 1 (fst (author_delete_get i s)) = [redirect ''/catalog/authors'']
      \<and> snd (author_delete_get i s) = s
      \<and> author_update_get i s = ([next_err (HttpError 404 ''Author not found'')], s)
      \<and> author_detail i s = ([next_err (HttpError 404 ''Author not found'')], s))
   \<and> (findById i (books s) = None \<longrightarrow>
      take 1 (fst (book_delete_get i s)) = [redirect ''/catalog/books'']
      \<and> snd (book_delete_get i s) = s
      \<and> book_update_get i s = ([next_err (HttpError 404 ''Book not found'')], s)
      \<and> book_detail i s = ([next_err (HttpError 404 ''Book not found'')], s))
   \<and> (findById i (bookinstances s) = None \<longrightarrow>
      bookinstance_delete_get i s = ([next_err (HttpError 404 ''Book copy not found'')], s)
      \<and> bookinstance_detail i s = ([next_err (HttpError 404 ''Book copy not found'')], s))"
  by (simp add: genre_delete_get_def genre_update_get_def genre_detail_def
      author_delete_get_def author_update_get_def author_detail_def
      book_delete_get_def book_update_get_def book_detail_def
      bookinstance_delete_get_def bookinstance_detail_def Let_def)

theorem missing_id_delete_get_and_update_get_witness:
  "findById ''x'' (genres library) = None \<and> findById ''x'' (authors library) = None
   \<and> findById ''x'' (books library) = None \<and> findById ''x'' (bookinstances library) = None
   \<and> genre_delete_get ''x'' library
       = ([redirect ''/catalog/genres'', render (genre_delete_view ''Delete Genre'' None [])],
          library)
   \<and> genre_update_get ''x'' library = ([next_err (HttpError 404 ''Genre not found'')], library)
   \<and> author_delete_get ''x'' library
       = ([redirect ''/catalog/authors'', render (author_delete_view ''Delete Author'' None [])],
          library)
   \<and> author_update_get ''x'' library = ([next_err (HttpError 404 ''Author not found'')], library)
   \<and> book_delete_get ''x'' library
       = ([redirect ''/catalog/books'', render (book_delete_view ''Delete Book'' None [])],
          library)
   \<and> book_update_get ''x'' library = ([next_err (HttpError 404 ''Book not found'')], library)
   \<and> bookinstance_detail ''x'' library
       = ([next_err (HttpError 404 ''Book copy not found'')], library)"
  using missing_id_delete_get_and_update_get [of "''x''" library]
  by (simp add: genre_delete_get_def author_delete_get_def book_delete_get_def
      examples findById_def find_docs_def Let_def)

section \<open>The list views\<close>

text \<open>
  C7, as the claim states it, fails for the copies: they are listed as the store holds
  them. With the copy of The Hobbit stored before the copy of Dune, the list shows
  them in that order, which is not ascending by title.
\<close>

theorem bookinstance_list_unsorted_counterexample:
  "bookinstance_list (library\<lparr>bookinstances := [copy1, copy2]\<rparr>)
     = ([render (bookinstance_list_view ''Book Instance List''
                  [(copy1, Some hobbit), (copy2, Some dune)])],
        library\<lparr>bookinstances := [copy1, copy2]\<rparr>)
   \<and> title (snd hobbit) = ''The Hobbit'' \<and> title (snd dune) = ''Dune''
   \<and> \<not> sorted [''The Hobbit'', ''Dune'']"
  by (simp add: bookinstance_list_def populate_def examples findById_def)

text \<open>
  C7, amended. For every store, the list of genres is the genres in ascending order of
  name, the list of authors is the authors in ascending order of family name, and the
  list of books is the books in ascending order of title; the list of copies is the
  copies in the order of the store, each with its book.
\<close>

theorem lists_sorted_but_bookinstances:
  "(\<exists>l. genre_list s = ([render (genre_list_view ''Genre List'' l)], s)
        \<and> sorted (map (\<lambda>d. name (snd d)) l) \<and> mset l = mset (genres s))
   \<and> (\<exists>l. author_list s = ([render (author_list_view ''Author List'' l)], s)
        \<and> sorted (map (\<lambda>d. family_name (snd d)) l) \<and> mset l = mset (authors s))
   \<and> (\<exists>l. book_list s = ([render (book_list_view ''Book List'' l)], s)
        \<and> sorted (map (\<lambda>e. fst (snd e)) l)
        \<and> mset (map (\<lambda>e. (fst e, fst (snd e))) l)
            = mset (map (\<lambda>b. (fst b, title (snd b))) (books s)))
   \<and> bookinstance_list s
       = ([render (bookinstance_list_view ''Book Instance List''
                    (map (populate book (books s)) (bookinstances s)))], s)"
proof (intro conjI)
  show "\<exists>l. genre_list s = ([render (genre_list_view ''Genre List'' l)], s)
        \<and> sorted (map (\<lambda>d. name (snd d)) l) \<and> mset l = mset (genres s)"
    by (simp add: genre_list_def)
  show "\<exists>l. author_list s = ([render (author_list_view ''Author List'' l)], s)
        \<and> sorted (map (\<lambda>d. family_name (snd d)) l) \<and> mset l = mset (authors s)"
    by (simp add: author_list_def)
  let ?sorted = "sort_key (\<lambda>b. title (snd b)) (books s)"
  let ?l = "map (\<lambda>b. (fst b, title (snd b), findById (author (snd b)) (authors s))) ?sorted"
  have 1: "map (\<lambda>e. fst (snd e)) ?l = map (\<lambda>b. title (snd b)) ?sorted"
    by (simp add: comp_def)
  have 2: "map (\<lambda>e. (fst e, fst (snd e))) ?l = map (\<lambda>b. (fst b, title (snd b))) ?sorted"
    by (simp add: comp_def)
  have "book_list s = ([render (book_list_view ''Book List'' ?l)], s)"
    by (simp add: book_list_def)
  moreover have "sorted (map (\<lambda>e. fst (snd e)) ?l)"
    unfolding 1 by simp
  moreover have "mset (map (\<lambda>e. (fst e, fst (snd e))) ?l)
      = mset (map (\<lambda>b. (fst b, title (snd b))) (books s))"
    unfolding 2 by simp
  ultimately show "\<exists>l. book_list s = ([render (book_list_view ''Book List'' l)], s)
        \<and> sorted (map (\<lambda>e. fst (snd e)) l)
        \<and> mset (map (\<lambda>e. (fst e, fst (snd e))) l)
            = mset (map (\<lambda>b. (fst b, title (snd b))) (books s))"
    by blast
  show "bookinstance_list s
       = ([render (bookinstance_list_view ''Book Instance List''
                    (map (populate book (books s)) (bookinstances s)))], s)"
    by (simp add: bookinstance_list_def)
qed

theorem lists_sorted_but_bookinstances_witness:
  "genre_list library = ([render (genre_list_view ''Genre List'' [fantasy, horror])], library)
   \<and> author_list library = ([render (author_list_view ''Author List'' [herbert, tolkien])], library)
   \<and> book_list library
       = ([render (book_list_view ''Book List''
                    [(''b2'', ''Dune'', Some herbert), (''b1'', ''The Hobbit'', Some tolkien)])],
          library)
   \<and> bookinstance_list library
       = ([render (bookinstance_list_view ''Book Instance List'' [(copy1, Some hobbit)])], library)"
  using lists_sorted_but_bookinstances [of library]
  by (simp add: genre_list_def author_list_def book_list_def populate_def examples findById_def)

section \<open>What a rejected form shows\<close>

text \<open>
  The create post of a genre and the create and update posts of an author, a book and a
  copy (with a \<open>book\<close> that is not blank) render the rejected form with the values of the
  body as the sanitizers leave them: every text field trimmed where the chain trims and
  escaped, the genres of a book escaped, a date as \<open>toDate\<close> reads it (none for an empty
  field). The store is left as it was.
\<close>

lemma sibling_posts_echo_sanitized_body:
  "(snd (genre_chain (body_name gb)) \<noteq> [] \<longrightarrow>
      genre_create_post n gb s
        = ([render (genre_form_view ''Create Genre''
                     (Some (n, \<lparr>name = escape (trim (body_name gb))\<rparr>))
                     (snd (genre_chain (body_name gb))))], s))
   \<and> (snd (author_chains isISO8601 toDate ab) \<noteq> [] \<longrightarrow>
      author_create_post isISO8601 toDate n ab s
        = ([render (author_form_view ''Create Author''
                     (from_body
                       \<lparr>first_name = escape (trim (body_first_name ab)),
                        family_name = escape (trim (body_family_name ab)),
                        date_of_birth = (if body_date_of_birth ab = [] then None
                                         else toDate (body_date_of_birth ab)),
                        date_of_death = (if body_date_of_death ab = [] then None
                                         else toDate (body_date_of_death ab))\<rparr>)
                     (snd (author_chains isISO8601 toDate ab)))], s)
      \<and> author_update_post isISO8601 toDate p ab s
        = ([render (author_form_view ''Update Author''
                     (from_body
                       \<lparr>first_name = escape (trim (body_first_name ab)),
                        family_name = escape (trim (body_family_name ab)),
                        date_of_birth = (if body_date_of_birth ab = [] then None
                                         else toDate (body_date_of_birth ab)),
                        date_of_death = (if body_date_of_death ab = [] then None
                                         else toDate (body_date_of_death ab))\<rparr>)
                     (snd (author_chains isISO8601 toDate ab)))], s))
   \<and> (snd (book_chains bb) \<noteq> [] \<longrightarrow>
      book_create_post n bb s
        = ([render (book_form_view ''Create Book'' (authors s)
                     (checked (map escape (to_array (body_genre bb))) (genres s))
                     (n, \<lparr>title = escape (trim (body_title bb)),
                          author = escape (trim (body_author bb)),
                          summary = escape (trim (body_summary bb)),
                          isbn = escape (trim (body_isbn bb)),
                          genre = map escape (to_array (body_genre bb))\<rparr>)
                     (snd (book_chains bb)))], s)
      \<and> book_update_post p bb s
        = ([render (book_form_view ''Update Book'' (authors s)
                     (checked (map escape (to_array (body_genre bb))) (genres s))
                     (p, \<lparr>title = escape (trim (body_title bb)),
                          author = escape (trim (body_author bb)),
                          summary = escape (trim (body_summary bb)),
                          isbn = escape (trim (body_isbn bb)),
                          genre = map escape (to_array (body_genre bb))\<rparr>)
                     (snd (book_chains bb)))], s))
   \<and> (snd (bookinstance_chains isISO8601 toDate ib) \<noteq> [] \<and> trim (body_book ib) \<noteq> [] \<longrightarrow>
      bookinstance_create_post isISO8601 toDate n ib s
        = ([render (bookinstance_form_view ''Create BookInstance'' (project_title (books s))
                     (escape (trim (body_book ib))) None
                     (n, \<lparr>book = escape (trim (body_book ib)),
                          imprint = escape (trim (body_imprint ib)),
                          status = escape (body_status ib),
                          due_back = (if body_due_back ib = [] then None
                                      else toDate (body_due_back ib))\<rparr>)
                     (snd (bookinstance_chains isISO8601 toDate ib)))], s)
      \<and> bookinstance_update_post isISO8601 toDate p ib s
        = ([render (bookinstance_form_view ''Update BookInstance'' (project_title (books s))
                     (escape (trim (body_book ib))) None
                     (p, \<lparr>book = escape (trim (body_book ib)),
                          imprint = escape (trim (body_imprint ib)),
                          status = escape (body_status ib),
                          due_back = (if body_due_back ib = [] then None
                                      else toDate (body_due_back ib))\<rparr>)
                     (snd (bookinstance_chains isISO8601 toDate ib)))], s))"
proof (intro conjI impI)
  assume "snd (genre_chain (body_name gb)) \<noteq> []"
  then show "genre_create_post n gb s
        = ([render (genre_form_view ''Create Genre''
                     (Some (n, \<lparr>name = escape (trim (body_name gb))\<rparr>))
                     (snd (genre_chain (body_name gb))))], s)"
    using genre_create_post_rejected [of gb n s] by (simp add: genre_chain_eq)
next
  assume a: "snd (author_chains isISO8601 toDate ab) \<noteq> []"
  show "author_create_post isISO8601 toDate n ab s
        = ([render (author_form_view ''Create Author''
                     (from_body
                       \<lparr>first_name = escape (trim (body_first_name ab)),
                        family_name = escape (trim (body_family_name ab)),
                        date_of_birth = (if body_date_of_birth ab = [] then None
                                         else toDate (body_date_of_birth ab)),
                        date_of_death = (if body_date_of_death ab = [] then None
                                         else toDate (body_date_of_death ab))\<rparr>)
                     (snd (author_chains isISO8601 toDate ab)))], s)"
    unfolding author_create_post_rejected [OF a] author_chains_fst run_date_fst ..
  show "author_update_post isISO8601 toDate p ab s
        = ([render (author_form_view ''Update Author''
                     (from_body
                       \<lparr>first_name = escape (trim (body_first_name ab)),
                        family_name = escape (trim (body_family_name ab)),
                        date_of_birth = (if body_date_of_birth ab = [] then None
                                         else toDate (body_date_of_birth ab)),
                        date_of_death = (if body_date_of_death ab = [] then None
                                         else toDate (body_date_of_death ab))\<rparr>)
                     (snd (author_chains isISO8601 toDate ab)))], s)"
    unfolding author_update_post_rejected [OF a] author_chains_fst run_date_fst ..
next
  assume a: "snd (book_chains bb) \<noteq> []"
  have g: "genre (fst (book_chains bb)) = map escape (to_array (body_genre bb))"
    by (simp add: book_chains_fst)
  show "book_create_post n bb s
        = ([render (book_form_view ''Create Book'' (authors s)
                     (checked (map escape (to_array (body_genre bb))) (genres s))
                     (n, \<lparr>title = escape (trim (body_title bb)),
                          author = escape (trim (body_author bb)),
                          summary = escape (trim (body_summary bb)),
                          isbn = escape (trim (body_isbn bb)),
                          genre = map escape (to_array (body_genre bb))\<rparr>)
                     (snd (book_chains bb)))], s)"
    unfolding book_create_post_rejected [OF a] g unfolding book_chains_fst ..
  show "book_update_post p bb s
        = ([render (book_form_view ''Update Book'' (authors s)
                     (checked (map escape (to_array (body_genre bb))) (genres s))
                     (p, \<lparr>title = escape (trim (body_title bb)),
                          author = escape (trim (body_author bb)),
                          summary = escape (trim (body_summary bb)),
                          isbn = escape (trim (body_isbn bb)),
                          genre = map escape (to_array (body_genre bb))\<rparr>)
                     (snd (book_chains bb)))], s)"
    unfolding book_update_post_rejected [OF a] g unfolding book_chains_fst ..
next
  assume "snd (bookinstance_chains isISO8601 toDate ib) \<noteq> [] \<and> trim (body_book ib) \<noteq> []"
  then have a: "snd (bookinstance_chains isISO8601 toDate ib) \<noteq> []"
    and nb: "trim (body_book ib) \<noteq> []"
    by simp_all
  have b: "book (fst (bookinstance_chains isISO8601 toDate ib)) = escape (trim (body_book ib))"
    by (simp add: bookinstance_chains_fst)
  show "bookinstance_create_post isISO8601 toDate n ib s
        = ([render (bookinstance_form_view ''Create BookInstance'' (project_title (books s))
                     (escape (trim (body_book ib))) None
                     (n, \<lparr>book = escape (trim (body_book ib)),
                          imprint = escape (trim (body_imprint ib)),
                          status = escape (body_status ib),
                          due_back = (if body_due_back ib = [] then None
                                      else toDate (body_due_back ib))\<rparr>)
                     (snd (bookinstance_chains isISO8601 toDate ib)))], s)"
    unfolding bookinstance_create_post_rejected [OF a nb] b
    unfolding bookinstance_chains_fst run_date_fst ..
  show "bookinstance_update_post isISO8601 toDate p ib s
        = ([render (bookinstance_form_view ''Update BookInstance'' (project_title (books s))
                     (escape (trim (body_book ib))) None
                     (p, \<lparr>book = escape (trim (body_book ib)),
                          imprint = escape (trim (body_imprint ib)),
                          status = escape (body_status ib),
                          due_back = (if body_due_back ib = [] then None
                                      else toDate (body_due_back ib))\<rparr>)
                     (snd (bookinstance_chains isISO8601 toDate ib)))], s)"
    unfolding bookinstance_update_post_rejected [OF a nb] b
    unfolding bookinstance_chains_fst run_date_fst ..
qed

text \<open>
  C4. Every rejected create or update post shows the submitted values again, never the
  stored ones. The update post of a genre does not: its rejected branch reads the genre
  of the path from the store and renders that one, against the comment of the branch
  and against what the other posts do. The update of Fantasy with a name of three
  spaces renders the form with the stored name Fantasy and the error of the name.
\<close>

theorem genre_update_post_rejected_shows_stored:
  "genre_update_post ''g1'' \<lparr>body_name = ''   ''\<rparr> library
     = ([render (genre_form_view ''Update Genre'' (Some fantasy)
                  [\<lparr>param = ''name'', msg = ''Genre name required'', val = []\<rparr>])], library)
   \<and> fantasy = (''g1'', \<lparr>name = ''Fantasy''\<rparr>)"
  by (simp add: genre_update_post_rejected genre_chain_eq trim_def whitespace_def
      examples findById_def)

section \<open>The errors of a blank required field\<close>




end
